theory Spec2Isabelle
  imports Complex_Main
begin

section \<open>Python values\<close>

text \<open>
  The application (\<^verbatim>\<open>src/app.py\<close>) is a Streamlit script. Every value it handles comes
  out of \<^verbatim>\<open>response.json()\<close>, a widget or the session state, so the values of the model
  are decoded JSON documents: \<^verbatim>\<open>None\<close>, booleans, numbers, strings, lists and dictionaries.
  A dictionary is an association list; a decoded dictionary has no duplicate key.
  Numbers are reals: the script never computes with them, it only tests them for zero.
\<close>

datatype json =
    JNull
  | JBool bool
  | JNum real
  | JStr string
  | JArr "json list"
  | JObj "(string \<times> json) list"

text \<open>Python's truth value of an object, as tested by \<^verbatim>\<open>if x\<close>, \<^verbatim>\<open>not x\<close> and \<^verbatim>\<open>x and y\<close>.\<close>

fun truthy :: "json \<Rightarrow> bool" where
  "truthy JNull = False"
| "truthy (JBool b) = b"
| "truthy (JNum x) = (x \<noteq> 0)"
| "truthy (JStr s) = (s \<noteq> [])"
| "truthy (JArr xs) = (xs \<noteq> [])"
| "truthy (JObj kvs) = (kvs \<noteq> [])"

section \<open>Exceptions\<close>

text \<open>
  The exception classes that matter to the script's two kinds of handler,
  \<^verbatim>\<open>except requests.exceptions.RequestException\<close> and \<^verbatim>\<open>except Exception\<close>.
  \<open>ConnectionError\<close>, \<open>Timeout\<close>, \<open>HTTPError\<close> and \<open>JSONDecodeError\<close> are the classes of
  \<^verbatim>\<open>requests.exceptions\<close>, all derived from \<open>RequestException\<close>; \<open>OutOfBoundsDatetime\<close>
  is the class of pandas, raised for a timestamp that does not fit; \<open>LibraryError\<close> stands
  for any other class derived from \<open>Exception\<close>; \<open>KeyboardInterrupt\<close> derives from
  \<open>BaseException\<close> only.
\<close>

datatype exn =
    ConnectionError
  | Timeout
  | HTTPError nat
  | JSONDecodeError
  | AttributeError
  | KeyError
  | TypeError
  | ValueError
  | OverflowError
  | OutOfBoundsDatetime
  | LibraryError string
  | KeyboardInterrupt

fun is_RequestException :: "exn \<Rightarrow> bool" where
  "is_RequestException ConnectionError = True"
| "is_RequestException Timeout = True"
| "is_RequestException (HTTPError code) = True"
| "is_RequestException JSONDecodeError = True"
| "is_RequestException e = False"

fun is_Exception :: "exn \<Rightarrow> bool" where
  "is_Exception KeyboardInterrupt = False"
| "is_Exception e = True"

text \<open>
  \<^verbatim>\<open>d.get(key)\<close>: only a dictionary has the method; a missing key gives \<^verbatim>\<open>None\<close>.
  \<^verbatim>\<open>d[key]\<close> with a string key: a missing key raises \<open>KeyError\<close>, and a value that is
  not a dictionary cannot be indexed by a string.
\<close>

fun py_get :: "json \<Rightarrow> string \<Rightarrow> exn + json" where
  "py_get (JObj kvs) k = Inr (case map_of kvs k of None \<Rightarrow> JNull | Some v \<Rightarrow> v)"
| "py_get v k = Inl AttributeError"

fun py_item :: "json \<Rightarrow> string \<Rightarrow> exn + json" where
  "py_item (JObj kvs) k = (case map_of kvs k of None \<Rightarrow> Inl KeyError | Some v \<Rightarrow> Inr v)"
| "py_item v k = Inl TypeError"

text \<open>\<^verbatim>\<open>d and d.get(key)\<close> as a condition: the right operand is evaluated only when
  \<open>d\<close> is true.\<close>

definition and_get :: "json \<Rightarrow> string \<Rightarrow> exn + bool" where
  "and_get d k =
     (if \<not> truthy d then Inr False
      else case py_get d k of Inl e \<Rightarrow> Inl e | Inr v \<Rightarrow> Inr (truthy v))"

section \<open>Timestamps and frames\<close>

text \<open>
  A pandas timestamp is a count of nanoseconds since 1970-01-01T00:00, or \<open>NaT\<close>
  (not a time). The count is a signed 64-bit integer, whose least value stands for
  \<open>NaT\<close>: a timestamp lies between \<open>ts_min\<close>, 1677-09-21T00:12:43.145224193, and
  \<open>ts_max\<close>, 2262-04-11T23:47:16.854775807.
\<close>

datatype timestamp = NaT | Timestamp int

definition ns_per_day :: int where
  "ns_per_day = 86400000000000"

definition ts_min :: int where
  "ts_min = - 9223372036854775807"

definition ts_max :: int where
  "ts_max = 9223372036854775807"

text \<open>
  \<^verbatim>\<open>ts + timedelta(days=i)\<close>: \<open>NaT\<close> absorbs the addition, and a sum outside the range
  of timestamps raises \<open>OutOfBoundsDatetime\<close>.
\<close>

fun add_days :: "timestamp \<Rightarrow> nat \<Rightarrow> exn + timestamp" where
  "add_days NaT i = Inr NaT"
| "add_days (Timestamp t) i =
     (let r = t + int i * ns_per_day in
      if r < ts_min \<or> ts_max < r then Inl OutOfBoundsDatetime else Inr (Timestamp r))"

text \<open>
  The list comprehension \<^verbatim>\<open>[ts + timedelta(days=i) for i in days]\<close>: the first addition
  that raises ends it.
\<close>

fun add_days_each :: "timestamp \<Rightarrow> nat list \<Rightarrow> exn + timestamp list" where
  "add_days_each t [] = Inr []"
| "add_days_each t (i # days) =
     (case add_days t i of
        Inl e \<Rightarrow> Inl e
      | Inr d \<Rightarrow> (case add_days_each t days of Inl e \<Rightarrow> Inl e | Inr ds \<Rightarrow> Inr (d # ds)))"

text \<open>A timestamp to which seven days can be added.\<close>

fun has_week_ahead :: "timestamp \<Rightarrow> bool" where
  "has_week_ahead NaT = False"
| "has_week_ahead (Timestamp t) = (ts_min \<le> t \<and> t + 7 * ns_per_day \<le> ts_max)"

text \<open>\<^verbatim>\<open>Series.max()\<close> of a datetime column skips \<open>NaT\<close>; it is \<open>NaT\<close> when nothing is left.\<close>

fun later :: "timestamp \<Rightarrow> timestamp \<Rightarrow> timestamp" where
  "later NaT b = b"
| "later a NaT = a"
| "later (Timestamp a) (Timestamp b) = Timestamp (max a b)"

definition Series_max :: "timestamp list \<Rightarrow> timestamp" where
  "Series_max ds = foldr later ds NaT"

text \<open>A frame with the columns \<open>Date\<close> and \<open>Close\<close> is the list of its rows.\<close>

type_synonym frame = "(timestamp \<times> json) list"

definition Date :: "frame \<Rightarrow> timestamp list" where
  "Date df = map fst df"

definition Close :: "frame \<Rightarrow> json list" where
  "Close df = map snd df"

subsection \<open>Calendar dates\<close>

text \<open>
  The proleptic Gregorian ordinal of a date, as Python's \<^verbatim>\<open>datetime\<close> counts it
  (0001-01-01 is day 1), and the day number relative to 1970-01-01 (ordinal 719163).
\<close>

definition is_leap :: "int \<Rightarrow> bool" where
  "is_leap y = (y mod 4 = 0 \<and> (y mod 100 \<noteq> 0 \<or> y mod 400 = 0))"

definition days_in_month :: "int \<Rightarrow> int \<Rightarrow> int" where
  "days_in_month y m =
     (if m = 2 then (if is_leap y then 29 else 28)
      else if m = 4 \<or> m = 6 \<or> m = 9 \<or> m = 11 then 30 else 31)"

definition days_before_year :: "int \<Rightarrow> int" where
  "days_before_year y = (y - 1) * 365 + (y - 1) div 4 - (y - 1) div 100 + (y - 1) div 400"

definition days_before_month :: "int \<Rightarrow> int \<Rightarrow> int" where
  "days_before_month y m =
     [0, 31, 59, 90, 120, 151, 181, 212, 243, 273, 304, 334] ! nat (m - 1)
       + (if 2 < m \<and> is_leap y then 1 else 0)"

definition epoch_day :: "int \<Rightarrow> int \<Rightarrow> int \<Rightarrow> int" where
  "epoch_day y m d = days_before_year y + days_before_month y m + d - 719163"

definition digit :: "char \<Rightarrow> int option" where
  "digit c = (let n = (of_char c :: nat) in if 48 \<le> n \<and> n \<le> 57 then Some (int n - 48) else None)"

fun number :: "string \<Rightarrow> int option" where
  "number [] = None"
| "number cs =
     (if list_all (\<lambda>c. digit c \<noteq> None) cs
      then Some (foldl (\<lambda>a c. 10 * a + (case digit c of Some n \<Rightarrow> n | None \<Rightarrow> 0)) 0 cs)
      else None)"

text \<open>
  A date string \<^verbatim>\<open>YYYY-MM-DD\<close> of a day that exists and whose midnight is in the
  range of timestamps (1677-09-22 to 2262-04-11), which pandas parses to that midnight.
\<close>

definition iso_date :: "string \<Rightarrow> timestamp option" where
  "iso_date s =
     (if length s = 10 \<and> s ! 4 = CHR ''-'' \<and> s ! 7 = CHR ''-'' then
        (case (number (take 4 s), number (take 2 (drop 5 s)), number (drop 8 s)) of
           (Some y, Some m, Some d) \<Rightarrow>
             if 1 \<le> y \<and> 1 \<le> m \<and> m \<le> 12 \<and> 1 \<le> d \<and> d \<le> days_in_month y m
                \<and> ts_min \<le> epoch_day y m d * ns_per_day
                \<and> epoch_day y m d * ns_per_day \<le> ts_max
             then Some (Timestamp (epoch_day y m d * ns_per_day))
             else None
         | _ \<Rightarrow> None)
      else None)"

fun iso_dates :: "json \<Rightarrow> timestamp list option" where
  "iso_dates (JArr []) = Some []"
| "iso_dates (JArr (JStr s # xs)) =
     (case iso_date s of
        None \<Rightarrow> None
      | Some t \<Rightarrow> (case iso_dates (JArr xs) of None \<Rightarrow> None | Some ts \<Rightarrow> Some (t # ts)))"
| "iso_dates v = None"

section \<open>The world outside the script\<close>

text \<open>
  The calls the script sends to the backend: \<^verbatim>\<open>GET /tickers\<close>,
  \<^verbatim>\<open>GET /historical_data/{ticker}\<close>, \<^verbatim>\<open>POST /predict\<close> and \<^verbatim>\<open>POST /add\<close>, the last two
  with the body \<^verbatim>\<open>{"ticker": ticker}\<close>. The ticker of the first three is the
  selected option, whatever value that is; the ticker of \<^verbatim>\<open>/add\<close> is the text the user typed.
\<close>

datatype request =
    GET_tickers
  | GET_historical_data json
  | POST_predict json
  | POST_add string

text \<open>
  What \<^verbatim>\<open>requests.get\<close> or \<^verbatim>\<open>requests.post\<close> does: it raises, or it returns a response
  with a status code and a body, which is a JSON document or not.
\<close>

datatype http_outcome =
    Fails exn
  | Response nat "json option"

text \<open>One bar of the market-data provider's price history.\<close>

record bar =
  bar_open :: real
  bar_high :: real
  bar_low :: real
  bar_close :: real
  bar_volume :: real

text \<open>
  Everything the script does not decide is a field of the world:
  \<^item> \<open>API_BASE_URL\<close>: the lookup \<^verbatim>\<open>st.secrets["API_BASE_URL"]\<close>;
  \<^item> \<open>http_reply\<close>: the outcome of a call to the backend, given the calls made before it;
  \<^item> \<open>yf_history\<close>: \<^verbatim>\<open>yf.Ticker(ticker).history(period="1d")\<close>, the rows of the returned
    frame, or the exception raised;
  \<^item> \<open>selectbox_other\<close>: what \<^verbatim>\<open>st.selectbox\<close> does with options that are not a list;
  \<^item> \<open>to_datetime_other\<close>: what \<^verbatim>\<open>pd.to_datetime\<close> does with anything but a list of
    such \<^verbatim>\<open>YYYY-MM-DD\<close> strings;
  \<^item> \<open>DataFrame_other\<close>: what \<^verbatim>\<open>pd.DataFrame\<close> does with a \<open>Close\<close> column that is not a list;
  \<^item> \<open>mktime\<close>: \<^verbatim>\<open>time.mktime(ts.timetuple())\<close> for the timestamp with the given count of
    nanoseconds, in seconds: it reads the date and time in the local time zone of the
    process, and raises \<open>OverflowError\<close> outside the range of the platform.
\<close>

record world =
  API_BASE_URL :: "exn + string"
  http_reply :: "request list \<Rightarrow> request \<Rightarrow> http_outcome"
  yf_history :: "string \<Rightarrow> exn + bar list"
  selectbox_other :: "json \<Rightarrow> nat \<Rightarrow> exn + json"
  to_datetime_other :: "json \<Rightarrow> exn + timestamp list"
  DataFrame_other :: "timestamp list \<Rightarrow> json \<Rightarrow> exn + frame"
  mktime :: "int \<Rightarrow> exn + real"

text \<open>What the user did in the sidebar before this run of the script.\<close>

record user =
  pick :: nat
  new_ticker :: string
  add_button :: bool

section \<open>What the script shows and the state it threads\<close>

datatype error_message =
    Error_fetching_tickers exn
  | Error_fetching_historical_data json exn
  | Error_fetching_predictions json exn
  | Invalid_ticker string
  | Error_adding_ticker string exn

datatype chart_title =
    Stock_Data_and_Prediction_for json
  | Stock_Data_for json

text \<open>A figure: the frame plotted, the title, and where the vertical line is drawn.\<close>

record figure =
  data :: frame
  title :: chart_title
  vline :: "real option"

datatype ui_event =
    Title string
  | Header string
  | Warning string
  | Error error_message
  | Success json
  | Selectbox string json
  | Text_input string
  | Button string
  | Plotly_chart figure

text \<open>
  The state a run threads: \<^verbatim>\<open>st.session_state\<close>, the calls made to the backend so far,
  and what has been put on the page, both in order.
\<close>

record state =
  session :: "string \<rightharpoonup> json"
  calls :: "request list"
  ui :: "ui_event list"

definition show_ui :: "ui_event \<Rightarrow> state \<Rightarrow> state" where
  "show_ui ev s = s\<lparr>ui := ui s @ [ev]\<rparr>"

definition set_session :: "string \<Rightarrow> json \<Rightarrow> state \<Rightarrow> state" where
  "set_session k v s = s\<lparr>session := (session s)(k \<mapsto> v)\<rparr>"

text \<open>A run of the script stops early by an exception or by \<^verbatim>\<open>st.rerun()\<close>.\<close>

datatype stop = Raised exn | Rerun

section \<open>Library calls\<close>

text \<open>
  The three lines every backend function shares: the call, \<^verbatim>\<open>response.raise_for_status()\<close>,
  which raises \<open>HTTPError\<close> for a status from 400 to 599, and \<^verbatim>\<open>response.json()\<close>, which
  raises \<open>JSONDecodeError\<close> for a body that is not JSON.
\<close>

definition request_json :: "world \<Rightarrow> request \<Rightarrow> state \<Rightarrow> (exn + json) \<times> state" where
  "request_json w req s =
     (let s' = s\<lparr>calls := calls s @ [req]\<rparr> in
      case http_reply w (calls s) req of
        Fails e \<Rightarrow> (Inl e, s')
      | Response code body \<Rightarrow>
          if 400 \<le> code \<and> code < 600 then (Inl (HTTPError code), s')
          else (case body of None \<Rightarrow> (Inl JSONDecodeError, s') | Some v \<Rightarrow> (Inr v, s')))"

text \<open>
  \<^verbatim>\<open>st.selectbox(label, options, index=0)\<close> on a non-empty list returns the option
  the user picked, the first one when the pick is out of range.
\<close>

definition selectbox :: "world \<Rightarrow> json \<Rightarrow> nat \<Rightarrow> exn + json" where
  "selectbox w options i =
     (case options of
        JArr xs \<Rightarrow> (if xs = [] then Inr JNull else Inr (xs ! (if i < length xs then i else 0)))
      | _ \<Rightarrow> selectbox_other w options i)"

definition to_datetime :: "world \<Rightarrow> json \<Rightarrow> exn + timestamp list" where
  "to_datetime w v = (case iso_dates v of Some ts \<Rightarrow> Inr ts | None \<Rightarrow> to_datetime_other w v)"

text \<open>
  \<^verbatim>\<open>pd.DataFrame({"Date": dates, "Close": close})\<close>: two columns of different lengths raise
  \<open>ValueError\<close>.
\<close>

definition DataFrame :: "world \<Rightarrow> timestamp list \<Rightarrow> json \<Rightarrow> exn + frame" where
  "DataFrame w dates close =
     (case close of
        JArr cs \<Rightarrow> (if length cs = length dates then Inr (zip dates cs) else Inl ValueError)
      | _ \<Rightarrow> DataFrame_other w dates close)"

section \<open>The functions of the script\<close>

text \<open>\<^verbatim>\<open>is_valid_ticker\<close>: \<^verbatim>\<open>not hist.empty\<close>, and \<^verbatim>\<open>False\<close> under \<^verbatim>\<open>except Exception\<close>.\<close>

definition is_valid_ticker :: "world \<Rightarrow> string \<Rightarrow> exn + bool" where
  "is_valid_ticker w ticker =
     (case yf_history w ticker of
        Inr hist \<Rightarrow> Inr (hist \<noteq> [])
      | Inl e \<Rightarrow> (if is_Exception e then Inr False else Inl e))"

definition fetch_tickers :: "world \<Rightarrow> state \<Rightarrow> (exn + json) \<times> state" where
  "fetch_tickers w s =
     (case request_json w GET_tickers s of
        (Inr v, s') \<Rightarrow> (Inr v, s')
      | (Inl e, s') \<Rightarrow>
          if is_RequestException e
          then (Inr (JArr []), show_ui (Error (Error_fetching_tickers e)) s')
          else (Inl e, s'))"

definition fetch_historical_data :: "world \<Rightarrow> json \<Rightarrow> state \<Rightarrow> (exn + json) \<times> state" where
  "fetch_historical_data w ticker s =
     (case request_json w (GET_historical_data ticker) s of
        (Inr v, s') \<Rightarrow> (Inr v, s')
      | (Inl e, s') \<Rightarrow>
          if is_RequestException e
          then (Inr JNull, show_ui (Error (Error_fetching_historical_data ticker e)) s')
          else (Inl e, s'))"

definition fetch_predictions :: "world \<Rightarrow> json \<Rightarrow> state \<Rightarrow> (exn + json) \<times> state" where
  "fetch_predictions w ticker s =
     (case request_json w (POST_predict ticker) s of
        (Inr v, s') \<Rightarrow> (Inr v, s')
      | (Inl e, s') \<Rightarrow>
          if is_RequestException e
          then (Inr JNull, show_ui (Error (Error_fetching_predictions ticker e)) s')
          else (Inl e, s'))"

definition add_new_ticker :: "world \<Rightarrow> string \<Rightarrow> state \<Rightarrow> (exn + json) \<times> state" where
  "add_new_ticker w ticker s =
     (case is_valid_ticker w ticker of
        Inl e \<Rightarrow> (Inl e, s)
      | Inr False \<Rightarrow> (Inr JNull, show_ui (Error (Invalid_ticker ticker)) s)
      | Inr True \<Rightarrow>
          (case request_json w (POST_add ticker) s of
             (Inr v, s') \<Rightarrow> (Inr v, s')
           | (Inl e, s') \<Rightarrow>
               if is_RequestException e
               then (Inr JNull, show_ui (Error (Error_adding_ticker ticker e)) s')
               else (Inl e, s')))"

section \<open>The script, top to bottom\<close>

text \<open>Lines 81 to 87: the keys a first run puts into the session state.\<close>

definition init_session :: "state \<Rightarrow> state" where
  "init_session s =
     (let s1 = (if session s ''selected_ticker'' = None then set_session ''selected_ticker'' JNull s else s);
          s2 = (if session s1 ''all_tickers'' = None then set_session ''all_tickers'' (JArr []) s1 else s1)
      in if session s2 ''ticker_added'' = None
         then set_session ''initial_load'' (JBool True) (set_session ''ticker_added'' (JBool False) s2)
         else s2)"

text \<open>
  Lines 95 to 105: the ticker list is fetched again on every run, and the selection is
  \<^verbatim>\<open>None\<close> or what the select box returns.
\<close>

definition select_ticker :: "world \<Rightarrow> user \<Rightarrow> state \<Rightarrow> (stop + unit) \<times> state" where
  "select_ticker w u s =
     (case fetch_tickers w s of
        (Inl e, s1) \<Rightarrow> (Inl (Raised e), s1)
      | (Inr all_tickers, s1) \<Rightarrow>
          (let s2 = set_session ''all_tickers'' all_tickers s1 in
           if \<not> truthy all_tickers
           then (Inr (), set_session ''selected_ticker'' JNull
                           (show_ui (Warning ''No tickers available. Please add a ticker.'') s2))
           else (case selectbox w all_tickers (pick u) of
                   Inl e \<Rightarrow> (Inl (Raised e), s2)
                 | Inr v \<Rightarrow> (Inr (), set_session ''selected_ticker'' v
                                       (show_ui (Selectbox ''Select Ticker'' all_tickers) s2)))))"

text \<open>
  Lines 107 to 120: the form that adds a ticker. After a true response the list is
  fetched again and \<^verbatim>\<open>st.rerun()\<close> stops the run.
\<close>

definition add_ticker_form :: "world \<Rightarrow> user \<Rightarrow> state \<Rightarrow> (stop + unit) \<times> state" where
  "add_ticker_form w u s =
     (let s1 = show_ui (Button ''Add Ticker'')
                 (show_ui (Text_input ''Enter New Ticker'') (show_ui (Header ''Add Ticker'') s)) in
      if add_button u \<and> new_ticker u \<noteq> [] then
        (case add_new_ticker w (new_ticker u) s1 of
           (Inl e, s2) \<Rightarrow> (Inl (Raised e), s2)
         | (Inr add_response, s2) \<Rightarrow>
             if truthy add_response then
               (case py_get add_response ''message'' of
                  Inl e \<Rightarrow> (Inl (Raised e), s2)
                | Inr message \<Rightarrow>
                    (case fetch_tickers w (show_ui (Success message) s2) of
                       (Inl e, s3) \<Rightarrow> (Inl (Raised e), s3)
                     | (Inr all_tickers, s3) \<Rightarrow>
                         (Inl Rerun, set_session ''all_tickers'' all_tickers s3)))
             else (Inr (), s2))
      else (Inr (), s1))"

definition sidebar :: "world \<Rightarrow> user \<Rightarrow> state \<Rightarrow> (stop + unit) \<times> state" where
  "sidebar w u s =
     (case select_ticker w u (show_ui (Header ''Ticker Options'') s) of
        (Inl stop, s1) \<Rightarrow> (Inl stop, s1)
      | (Inr _, s1) \<Rightarrow> add_ticker_form w u s1)"

text \<open>Lines 128 to 131: the frame of the historical data.\<close>

definition df_historical_of :: "world \<Rightarrow> json \<Rightarrow> exn + frame" where
  "df_historical_of w historical_data =
     (case py_item historical_data ''dates'' of
        Inl e \<Rightarrow> Inl e
      | Inr ds \<Rightarrow>
          (case to_datetime w ds of
             Inl e \<Rightarrow> Inl e
           | Inr dates \<Rightarrow>
               (case py_item historical_data ''close'' of
                  Inl e \<Rightarrow> Inl e
                | Inr close \<Rightarrow> DataFrame w dates close)))"

text \<open>
  Lines 137 to 143: the seven days after the last date, the frame of the predictions
  and the two frames concatenated. The result is \<open>df_combined\<close> with \<open>last_date\<close>.
\<close>

definition df_combined_of :: "world \<Rightarrow> frame \<Rightarrow> json \<Rightarrow> exn + frame \<times> timestamp" where
  "df_combined_of w df_historical predictions_data =
     (case py_item predictions_data ''predictions'' of
        Inl e \<Rightarrow> Inl e
      | Inr predictions \<Rightarrow>
          (let last_date = Series_max (Date df_historical) in
           case add_days_each last_date [1..<8] of
             Inl e \<Rightarrow> Inl e
           | Inr prediction_dates \<Rightarrow>
               (case DataFrame w prediction_dates predictions of
                  Inl e \<Rightarrow> Inl e
                | Inr df_predictions \<Rightarrow> Inr (df_historical @ df_predictions, last_date))))"

text \<open>
  Lines 136 to 170, the frame that is plotted: \<open>df_combined\<close>, with the date of the
  vertical line, when there are predictions, and \<open>df_historical\<close> itself when there are none.
\<close>

definition df_to_plot :: "world \<Rightarrow> frame \<Rightarrow> json \<Rightarrow> exn + frame \<times> timestamp option" where
  "df_to_plot w df_historical predictions_data =
     (case and_get predictions_data ''predictions'' of
        Inl e \<Rightarrow> Inl e
      | Inr True \<Rightarrow>
          (case df_combined_of w df_historical predictions_data of
             Inl e \<Rightarrow> Inl e
           | Inr (df_combined, last_date) \<Rightarrow> Inr (df_combined, Some last_date))
      | Inr False \<Rightarrow> Inr (df_historical, None))"

text \<open>
  The chart. With predictions the vertical line is drawn at
  \<^verbatim>\<open>time.mktime(last_date.timetuple()) * 1000\<close>; \<^verbatim>\<open>timetuple\<close> raises \<open>ValueError\<close> when
  \<open>last_date\<close> is \<open>NaT\<close>, and \<^verbatim>\<open>mktime\<close> may raise, both before anything is shown.
  The calls \<^verbatim>\<open>px.line\<close>, \<^verbatim>\<open>fig.add_vline\<close> and \<^verbatim>\<open>st.plotly_chart\<close> themselves are taken
  to succeed.
\<close>

definition plot :: "world \<Rightarrow> json \<Rightarrow> frame \<Rightarrow> json \<Rightarrow> state \<Rightarrow> (exn + unit) \<times> state" where
  "plot w ticker df_historical predictions_data s =
     (case df_to_plot w df_historical predictions_data of
        Inl e \<Rightarrow> (Inl e, s)
      | Inr (df, None) \<Rightarrow>
          (Inr (), show_ui (Plotly_chart \<lparr>data = df, title = Stock_Data_for ticker, vline = None\<rparr>) s)
      | Inr (df, Some NaT) \<Rightarrow> (Inl ValueError, s)
      | Inr (df, Some (Timestamp t)) \<Rightarrow>
          (case mktime w t of
             Inl e \<Rightarrow> (Inl e, s)
           | Inr last_date_ts \<Rightarrow>
               (Inr (), show_ui (Plotly_chart
                  \<lparr>data = df, title = Stock_Data_and_Prediction_for ticker,
                   vline = Some (last_date_ts * 1000)\<rparr>) s)))"

text \<open>Lines 122 to 174: the main area.\<close>

definition main_area :: "world \<Rightarrow> state \<Rightarrow> (exn + unit) \<times> state" where
  "main_area w s =
     (case session s ''selected_ticker'' of
        None \<Rightarrow> (Inl KeyError, s)
      | Some ticker \<Rightarrow>
          if \<not> truthy ticker then (Inr (), s)
          else
            (case fetch_historical_data w ticker s of
               (Inl e, s1) \<Rightarrow> (Inl e, s1)
             | (Inr historical_data, s1) \<Rightarrow>
                 (case and_get historical_data ''dates'' of
                    Inl e \<Rightarrow> (Inl e, s1)
                  | Inr False \<Rightarrow>
                      (Inr (), show_ui (Warning
                         ''Could not retrieve data, please make sure ticker has valid historical data'') s1)
                  | Inr True \<Rightarrow>
                      (case df_historical_of w historical_data of
                         Inl e \<Rightarrow> (Inl e, s1)
                       | Inr df_historical \<Rightarrow>
                           (case fetch_predictions w ticker s1 of
                              (Inl e, s2) \<Rightarrow> (Inl e, s2)
                            | (Inr predictions_data, s2) \<Rightarrow>
                                plot w ticker df_historical predictions_data s2)))))"

text \<open>One run of the script.\<close>

definition script :: "world \<Rightarrow> user \<Rightarrow> state \<Rightarrow> (stop + unit) \<times> state" where
  "script w u s =
     (case API_BASE_URL w of
        Inl e \<Rightarrow> (Inl (Raised e), s)
      | Inr url \<Rightarrow>
          (case sidebar w u (init_session (show_ui (Title ''Stock Price Prediction App'') s)) of
             (Inl stop, s1) \<Rightarrow> (Inl stop, s1)
           | (Inr _, s1) \<Rightarrow>
               (case main_area w s1 of
                  (Inl e, s2) \<Rightarrow> (Inl (Raised e), s2)
                | (Inr _, s2) \<Rightarrow> (Inr (), s2))))"

text \<open>
  A render cycle: a run, and after \<^verbatim>\<open>st.rerun()\<close> one more run, in which the button is
  no longer pressed.
\<close>

definition render :: "world \<Rightarrow> user \<Rightarrow> state \<Rightarrow> (stop + unit) \<times> state" where
  "render w u s =
     (case script w u s of
        (Inl Rerun, s1) \<Rightarrow> script w (u\<lparr>add_button := False\<rparr>) s1
      | r \<Rightarrow> r)"

section \<open>Shapes of replies\<close>

text \<open>
  A call to the backend fails when it raises a \<open>RequestException\<close>: the call itself does,
  or the status is from 400 to 599, or the body is not JSON.
\<close>

definition request_fails :: "http_outcome \<Rightarrow> bool" where
  "request_fails r =
     (case r of
        Fails e \<Rightarrow> is_RequestException e
      | Response code body \<Rightarrow> (400 \<le> code \<and> code < 600) \<or> body = None)"

fun is_JStr :: "json \<Rightarrow> bool" where
  "is_JStr (JStr s) = True"
| "is_JStr v = False"





text \<open>The day, counted from 1970-01-01, on which a count of nanoseconds falls.\<close>

definition calendar_day :: "int \<Rightarrow> int" where
  "calendar_day t = t div ns_per_day"

section \<open>Concrete worlds\<close>

definition fresh :: state where
  "fresh = \<lparr>session = Map.empty, calls = [], ui = []\<rparr>"

definition nobody :: user where
  "nobody = \<lparr>pick = 0, new_ticker = [], add_button = False\<rparr>"

definition one_bar :: bar where
  "one_bar = \<lparr>bar_open = 100, bar_high = 103, bar_low = 99, bar_close = 102, bar_volume = 1000\<rparr>"

definition aapl_historical :: json where
  "aapl_historical =
     JObj [(''dates'', JArr [JStr ''2024-01-01'', JStr ''2024-01-02'']),
           (''close'', JArr [JNum 100, JNum 102])]"

definition aapl_predictions :: json where
  "aapl_predictions =
     JObj [(''predictions'',
            JArr [JNum 103, JNum 104, JNum 105, JNum 106, JNum 107, JNum 108, JNum 109])]"

fun scenario_reply :: "request list \<Rightarrow> request \<Rightarrow> http_outcome" where
  "scenario_reply past GET_tickers = Response 200 (Some (JArr [JStr ''AAPL'', JStr ''MSFT'']))"
| "scenario_reply past (GET_historical_data t) =
     (if t = JStr ''AAPL'' then Response 200 (Some aapl_historical) else Response 404 None)"
| "scenario_reply past (POST_predict t) =
     (if t = JStr ''AAPL'' then Response 200 (Some aapl_predictions) else Response 404 None)"
| "scenario_reply past (POST_add t) = Response 200 (Some (JObj [(''message'', JStr ''Ticker added'')]))"

text \<open>
  The end-to-end scenario of section 8 of the specification, on a machine whose time zone
  is UTC and whose pandas raises for whatever the other fields are asked.
\<close>

definition scenario :: world where
  "scenario =
     \<lparr>API_BASE_URL = Inr ''http://localhost:8000'',
      http_reply = scenario_reply,
      yf_history = (\<lambda>t. if t = ''AAPL'' \<or> t = ''MSFT'' \<or> t = ''NVDA'' then Inr [one_bar]
                         else if t = ''ZZZZINVALID'' then Inr []
                         else Inl (LibraryError ''no data'')),
      selectbox_other = (\<lambda>v i. Inl TypeError),
      to_datetime_other = (\<lambda>v. Inl ValueError),
      DataFrame_other = (\<lambda>ds v. Inl ValueError),
      mktime = (\<lambda>t. Inr (real_of_int (t div 1000000000)))\<rparr>"

text \<open>The same backend, answering every call with status 200 and one fixed body.\<close>

definition answering :: "json \<Rightarrow> world" where
  "answering v = scenario\<lparr>http_reply := (\<lambda>past req. Response 200 (Some v))\<rparr>"

text \<open>The same backend, with another body for the historical data.\<close>

fun historical_reply :: "json \<Rightarrow> request list \<Rightarrow> request \<Rightarrow> http_outcome" where
  "historical_reply v past (GET_historical_data t) = Response 200 (Some v)"
| "historical_reply v past req = scenario_reply past req"

definition but_historical :: "json \<Rightarrow> world" where
  "but_historical v = scenario\<lparr>http_reply := historical_reply v\<rparr>"

text \<open>The same backend, with another body for the predictions.\<close>

fun predictions_reply :: "json \<Rightarrow> request list \<Rightarrow> request \<Rightarrow> http_outcome" where
  "predictions_reply v past (POST_predict t) = Response 200 (Some v)"
| "predictions_reply v past req = scenario_reply past req"

definition but_predictions :: "json \<Rightarrow> world" where
  "but_predictions v = scenario\<lparr>http_reply := predictions_reply v\<rparr>"

text \<open>The same backend, with another body for an added ticker.\<close>

fun added_reply :: "json \<Rightarrow> request list \<Rightarrow> request \<Rightarrow> http_outcome" where
  "added_reply v past (POST_add t) = Response 200 (Some v)"
| "added_reply v past req = scenario_reply past req"

definition but_added :: "json \<Rightarrow> world" where
  "but_added v = scenario\<lparr>http_reply := added_reply v\<rparr>"

text \<open>A backend that cannot be reached.\<close>

definition unreachable :: world where
  "unreachable = scenario\<lparr>http_reply := (\<lambda>past req. Fails ConnectionError)\<rparr>"

text \<open>A session that still holds a selection from an earlier run.\<close>

definition with_selection :: "json \<Rightarrow> state" where
  "with_selection ticker = \<lparr>session = [''selected_ticker'' \<mapsto> ticker], calls = [], ui = []\<rparr>"

text \<open>A user who typed \<^verbatim>\<open>NVDA\<close> and pressed the button.\<close>

definition adding_nvda :: user where
  "adding_nvda = \<lparr>pick = 1, new_ticker = ''NVDA'', add_button = True\<rparr>"

section \<open>Facts about the library calls\<close>

lemmas world_defs = scenario_def answering_def but_historical_def but_predictions_def
  but_added_def unreachable_def
  fresh_def nobody_def adding_nvda_def with_selection_def aapl_historical_def aapl_predictions_def

lemmas call_defs = request_json_def fetch_tickers_def fetch_historical_data_def
  fetch_predictions_def add_new_ticker_def is_valid_ticker_def show_ui_def set_session_def Let_def

lemmas script_defs = script_def sidebar_def select_ticker_def add_ticker_form_def main_area_def
  init_session_def selectbox_def and_get_def df_historical_of_def df_combined_of_def
  df_to_plot_def plot_def to_datetime_def DataFrame_def Date_def Close_def Series_max_def render_def

lemmas date_defs = iso_date_def digit_def days_in_month_def is_leap_def
  epoch_day_def days_before_year_def days_before_month_def ns_per_day_def ts_min_def ts_max_def

lemma request_json_answer:
  assumes "http_reply w (calls s) req = Response code (Some v)"
    and "\<not> (400 \<le> code \<and> code < 600)"
  shows "request_json w req s = (Inr v, s\<lparr>calls := calls s @ [req]\<rparr>)"
  using assms by (auto simp: request_json_def Let_def)

lemma request_json_session: "session (snd (request_json w req s)) = session s"
  by (simp add: request_json_def Let_def split: http_outcome.splits option.splits)



lemma upt_1_8: "[1..<8] = [1, 2, 3, 4, 5, 6, 7::nat]"
  by (simp add: upt_rec)

lemma Series_max_map_Timestamp:
  "ts \<noteq> [] \<Longrightarrow> Series_max (map Timestamp ts) = Timestamp (Max (set ts))"
proof (induction ts)
  case Nil
  then show ?case by simp
next
  case (Cons t ts)
  show ?case
  proof (cases "ts = []")
    case True
    then show ?thesis by (simp add: Series_max_def)
  next
    case False
    with Cons.IH have "Series_max (map Timestamp ts) = Timestamp (Max (set ts))" by simp
    with False show ?thesis by (simp add: Series_max_def)
  qed
qed


lemma dates_with_a_week_ahead:
  "iso_date ''1677-09-21'' = None
   \<and> map_option has_week_ahead (iso_date ''1677-09-22'') = Some True
   \<and> map_option has_week_ahead (iso_date ''2262-04-04'') = Some True
   \<and> map_option has_week_ahead (iso_date ''2262-04-05'') = Some False
   \<and> iso_date ''2262-04-11'' \<noteq> None
   \<and> iso_date ''2262-04-12'' = None"
  by (simp add: date_defs)


lemma add_days_each_week:
  assumes "has_week_ahead (Timestamp a)"
  shows "add_days_each (Timestamp a) [1..<8]
           = Inr (map (\<lambda>i. Timestamp (a + int i * ns_per_day)) [1, 2, 3, 4, 5, 6, 7])"
  unfolding upt_1_8 using assms
  by (simp add: ns_per_day_def ts_min_def ts_max_def Let_def)


section \<open>The combined series\<close>

text \<open>
  Claim C1, as the specification states it, holds of every historical series with a
  date. It fails for a series whose latest date is less than seven days before the last
  timestamp: the addition \<^verbatim>\<open>last_date + timedelta(days=i)\<close> of line 140 raises
  \<open>OutOfBoundsDatetime\<close>, and no combined series is built.
\<close>

theorem last_timestamp_counterexample:
  "df_to_plot scenario [(Timestamp 9223372036854775807, JNum 1)] aapl_predictions
     = Inl OutOfBoundsDatetime"
  by (simp add: df_to_plot_def df_combined_of_def and_get_def aapl_predictions_def Date_def
        Series_max_def upt_rec ns_per_day_def ts_min_def ts_max_def Let_def)

text \<open>
  Claim C1, amended. Take a historical frame whose dates are proper timestamps, at least
  one of them, such that seven days can be added to the latest, and predictions data
  holding a list of exactly seven values. Then the frame that is plotted is the
  historical frame followed by seven new rows: it has seven rows more, its first rows
  are the historical frame unchanged, the dates of the new rows are the latest
  historical date plus 1, 2, ..., 7 days, which fall on the seven calendar days after the
  day of that date, and their closes are the seven predictions in order.
\<close>

theorem predictions_are_appended:
  fixes ts :: "int list"
  assumes dates: "Date hist = map Timestamp ts" and nonempty: "ts \<noteq> []"
    and week: "has_week_ahead (Timestamp (Max (set ts)))"
    and preds: "py_get predictions_data ''predictions'' = Inr (JArr preds)"
    and seven: "length preds = 7"
  shows "\<exists>new. df_to_plot w hist predictions_data
                  = Inr (hist @ new, Some (Timestamp (Max (set ts))))
           \<and> length (hist @ new) = length hist + 7
           \<and> take (length hist) (hist @ new) = hist
           \<and> Date new = map (\<lambda>i. Timestamp (Max (set ts) + int i * ns_per_day))
                           [1, 2, 3, 4, 5, 6, 7]
           \<and> map (\<lambda>i. calendar_day (Max (set ts) + int i * ns_per_day)) [1, 2, 3, 4, 5, 6, 7]
               = map (\<lambda>i. calendar_day (Max (set ts)) + int i) [1, 2, 3, 4, 5, 6, 7]
           \<and> Close new = preds"
proof -
  obtain kvs where obj: "predictions_data = JObj kvs"
    using preds by (cases predictions_data) simp_all
  from preds obj have look: "map_of kvs ''predictions'' = Some (JArr preds)"
    by (simp split: option.splits)
  then have kvs: "kvs \<noteq> []" by auto
  from seven have pne: "preds \<noteq> []" by auto
  have guard: "and_get predictions_data ''predictions'' = Inr True"
    using obj look kvs pne by (simp add: and_get_def)
  have last: "Series_max (Date hist) = Timestamp (Max (set ts))"
    using dates nonempty by (simp add: Series_max_map_Timestamp)
  define days where
    "days = map (\<lambda>i. Timestamp (Max (set ts) + int i * ns_per_day)) [1, 2, 3, 4, 5, 6, 7::nat]"
  have added: "add_days_each (Timestamp (Max (set ts))) [1..<8] = Inr days"
    unfolding days_def by (rule add_days_each_week [OF week])
  have same: "length days = length preds" using seven by (simp add: days_def)
  have comb: "df_combined_of w hist predictions_data
                = Inr (hist @ zip days preds, Timestamp (Max (set ts)))"
    using obj look same last added by (simp add: df_combined_of_def DataFrame_def Let_def)
  have plotted: "df_to_plot w hist predictions_data
                = Inr (hist @ zip days preds, Some (Timestamp (Max (set ts))))"
    using guard comb by (simp add: df_to_plot_def)
  have d: "Date (zip days preds)
             = map (\<lambda>i. Timestamp (Max (set ts) + int i * ns_per_day)) [1, 2, 3, 4, 5, 6, 7]"
  proof -
    have "Date (zip days preds) = days"
      unfolding Date_def by (rule map_fst_zip [OF same])
    then show ?thesis by (simp add: days_def)
  qed
  have c: "Close (zip days preds) = preds"
    unfolding Close_def by (rule map_snd_zip [OF same])
  have cal: "map (\<lambda>i. calendar_day (Max (set ts) + int i * ns_per_day)) [1, 2, 3, 4, 5, 6, 7]
               = map (\<lambda>i. calendar_day (Max (set ts)) + int i) [1, 2, 3, 4, 5, 6, 7]"
    by (simp add: calendar_day_def ns_per_day_def)
  have len: "length (hist @ zip days preds) = length hist + 7"
    using same seven by simp
  show ?thesis using plotted len d c cal by auto
qed

text \<open>The theorem at a frame of two rows, the later date first.\<close>

theorem predictions_are_appended_witness:
  "Date [(Timestamp 5, JNum 1), (Timestamp 3, JNum 2)] = map Timestamp [5, 3]
   \<and> [5, 3::int] \<noteq> []
   \<and> has_week_ahead (Timestamp (Max (set [5, 3])))
   \<and> py_get aapl_predictions ''predictions''
       = Inr (JArr [JNum 103, JNum 104, JNum 105, JNum 106, JNum 107, JNum 108, JNum 109])
   \<and> length [JNum 103, JNum 104, JNum 105, JNum 106, JNum 107, JNum 108, JNum 109] = 7
   \<and> (\<exists>new. df_to_plot scenario [(Timestamp 5, JNum 1), (Timestamp 3, JNum 2)] aapl_predictions
               = Inr ([(Timestamp 5, JNum 1), (Timestamp 3, JNum 2)] @ new, Some (Timestamp 5))
         \<and> Date new = map (\<lambda>i. Timestamp (5 + int i * ns_per_day)) [1, 2, 3, 4, 5, 6, 7]
         \<and> Close new = [JNum 103, JNum 104, JNum 105, JNum 106, JNum 107, JNum 108, JNum 109])"
proof -
  have a: "Date [(Timestamp 5, JNum 1), (Timestamp 3, JNum 2)] = map Timestamp [5, 3]"
    by (simp add: Date_def)
  have b: "[5, 3::int] \<noteq> []" by simp
  have m: "Max (set [5, 3::int]) = 5" by simp
  have k: "has_week_ahead (Timestamp (Max (set [5, 3])))"
    unfolding m by (simp add: ts_min_def ts_max_def ns_per_day_def)
  have c: "py_get aapl_predictions ''predictions''
             = Inr (JArr [JNum 103, JNum 104, JNum 105, JNum 106, JNum 107, JNum 108, JNum 109])"
    by (simp add: aapl_predictions_def)
  have d: "length [JNum 103, JNum 104, JNum 105, JNum 106, JNum 107, JNum 108, JNum 109] = 7"
    by simp
  show ?thesis
    using predictions_are_appended [OF a b k c d, of scenario] a b k c d unfolding m by blast
qed

text \<open>
  Claim C4. With no predictions (the data is \<^verbatim>\<open>None\<close>, an empty dictionary or a
  dictionary whose list of predictions is empty) the frame that is plotted is the
  historical frame itself, with the same rows in the same order, and nothing is appended
  to it. The frame is a value: the historical frame that goes in is the one that is
  shown, and no step assigns to it.
\<close>

theorem no_predictions_plots_history:
  "df_to_plot w hist JNull = Inr (hist, None)
   \<and> df_to_plot w hist (JObj []) = Inr (hist, None)
   \<and> df_to_plot w hist (JObj [(''predictions'', JArr [])]) = Inr (hist, None)
   \<and> plot w ticker hist JNull s
       = (Inr (), s\<lparr>ui := ui s @ [Plotly_chart \<lparr>data = hist, title = Stock_Data_for ticker,
                                                 vline = None\<rparr>]\<rparr>)"
  by (simp add: df_to_plot_def plot_def and_get_def show_ui_def)

section \<open>The client functions\<close>

text \<open>
  Claim C3. \<open>is_valid_ticker\<close> returns true exactly when the provider's one-day history
  has at least one row. It returns false when the history is empty and when the provider
  raises an exception, and no exception leaves it.
\<close>

theorem is_valid_ticker_rows:
  "(is_valid_ticker w t = Inr True \<longleftrightarrow> (\<exists>hist. yf_history w t = Inr hist \<and> hist \<noteq> []))
   \<and> (yf_history w t = Inr [] \<longrightarrow> is_valid_ticker w t = Inr False)
   \<and> (\<forall>e. yf_history w t = Inl e \<and> is_Exception e \<longrightarrow> is_valid_ticker w t = Inr False)
   \<and> (\<forall>e. is_Exception e \<longrightarrow> is_valid_ticker w t \<noteq> Inl e)"
  by (auto simp: is_valid_ticker_def split: sum.splits)

text \<open>A ticker with one bar, a ticker with none, and a ticker for which the provider raises.\<close>

theorem is_valid_ticker_rows_witness:
  "yf_history scenario ''AAPL'' = Inr [one_bar] \<and> is_valid_ticker scenario ''AAPL'' = Inr True
   \<and> yf_history scenario ''ZZZZINVALID'' = Inr []
   \<and> is_valid_ticker scenario ''ZZZZINVALID'' = Inr False
   \<and> yf_history scenario ''???'' = Inl (LibraryError ''no data'')
   \<and> is_Exception (LibraryError ''no data'')
   \<and> is_valid_ticker scenario ''???'' = Inr False"
proof -
  have a: "yf_history scenario ''AAPL'' = Inr [one_bar]" by (simp add: scenario_def)
  have b: "yf_history scenario ''ZZZZINVALID'' = Inr []" by (simp add: scenario_def)
  have c: "yf_history scenario ''???'' = Inl (LibraryError ''no data'')" by (simp add: scenario_def)
  show ?thesis
    using a b c is_valid_ticker_rows [of scenario "''AAPL''"]
      is_valid_ticker_rows [of scenario "''ZZZZINVALID''"]
      is_valid_ticker_rows [of scenario "''???''"]
    by simp
qed

text \<open>
  Claim C2. When the validity check of a candidate is false, \<open>add_new_ticker\<close> returns
  \<^verbatim>\<open>None\<close>, shows the error \<^verbatim>\<open>Invalid ticker: X\<close> and nothing else, and makes no call to
  the backend: the calls made are the ones made before.
\<close>

theorem invalid_ticker_is_not_added:
  assumes "is_valid_ticker w X = Inr False"
  shows "add_new_ticker w X s = (Inr JNull, s\<lparr>ui := ui s @ [Error (Invalid_ticker X)]\<rparr>)
         \<and> calls (snd (add_new_ticker w X s)) = calls s"
  using assms by (simp add: add_new_ticker_def show_ui_def)

theorem invalid_ticker_is_not_added_witness:
  "is_valid_ticker scenario ''ZZZZINVALID'' = Inr False
   \<and> add_new_ticker scenario ''ZZZZINVALID'' fresh
       = (Inr JNull, fresh\<lparr>ui := [Error (Invalid_ticker ''ZZZZINVALID'')]\<rparr>)
   \<and> calls (snd (add_new_ticker scenario ''ZZZZINVALID'' fresh)) = []"
proof -
  have invalid: "is_valid_ticker scenario ''ZZZZINVALID'' = Inr False"
    by (simp add: is_valid_ticker_def scenario_def)
  show ?thesis
    using invalid invalid_ticker_is_not_added [OF invalid, of fresh] by (simp add: fresh_def)
qed

text \<open>
  Claim C5, as the specification states it, says that \<open>fetch_tickers\<close> returns a sequence
  after every outcome of the call. It does not: the function returns the decoded body as
  it is, and a reply with status 200 and the body \<^verbatim>\<open>null\<close> makes it return \<^verbatim>\<open>None\<close>.
\<close>

theorem fetch_tickers_null_counterexample:
  "fst (fetch_tickers (answering JNull) fresh) = Inr JNull"
  by (simp add: fetch_tickers_def request_json_def answering_def fresh_def)

text \<open>
  Claim C5, amended. When the call fails (it raises a \<open>RequestException\<close>, the status is
  from 400 to 599, or the body is not JSON), \<open>fetch_tickers\<close> shows one error message and
  returns the empty list. When the reply has another status and a JSON body, the function
  returns that body unchanged and shows nothing. No \<open>RequestException\<close> leaves the function.
\<close>

theorem fetch_tickers_outcomes:
  "(request_fails (http_reply w (calls s) GET_tickers) \<longrightarrow>
      (\<exists>e. fetch_tickers w s
            = (Inr (JArr []), s\<lparr>calls := calls s @ [GET_tickers],
                                ui := ui s @ [Error (Error_fetching_tickers e)]\<rparr>)))
   \<and> (\<forall>code v. http_reply w (calls s) GET_tickers = Response code (Some v)
                 \<and> \<not> (400 \<le> code \<and> code < 600) \<longrightarrow>
        fetch_tickers w s = (Inr v, s\<lparr>calls := calls s @ [GET_tickers]\<rparr>))
   \<and> (\<forall>e. is_RequestException e \<longrightarrow> fst (fetch_tickers w s) \<noteq> Inl e)"
  by (auto simp: fetch_tickers_def request_json_def request_fails_def show_ui_def Let_def
           split: http_outcome.splits option.splits)

text \<open>A backend that cannot be reached, and the backend of the scenario.\<close>

theorem fetch_tickers_outcomes_witness:
  "request_fails (http_reply unreachable (calls fresh) GET_tickers)
   \<and> fst (fetch_tickers unreachable fresh) = Inr (JArr [])
   \<and> http_reply scenario (calls fresh) GET_tickers
       = Response 200 (Some (JArr [JStr ''AAPL'', JStr ''MSFT'']))
   \<and> fst (fetch_tickers scenario fresh) = Inr (JArr [JStr ''AAPL'', JStr ''MSFT''])"
proof -
  have a: "request_fails (http_reply unreachable (calls fresh) GET_tickers)"
    by (simp add: request_fails_def unreachable_def)
  have b: "http_reply scenario (calls fresh) GET_tickers
             = Response 200 (Some (JArr [JStr ''AAPL'', JStr ''MSFT'']))"
    by (simp add: scenario_def)
  show ?thesis
    using a b fetch_tickers_outcomes [of unreachable fresh] fetch_tickers_outcomes [of scenario fresh]
    by auto
qed

text \<open>
  Claim C6, as the specification states it, says that \<open>fetch_historical_data\<close> returns
  nothing for a body whose list of dates is empty. It returns that body: a dictionary
  that is present, with no dates in it.
\<close>

theorem fetch_historical_empty_dates_counterexample:
  "fst (fetch_historical_data (answering (JObj [(''dates'', JArr []), (''close'', JArr [])]))
          (JStr ''AAPL'') fresh)
     = Inr (JObj [(''dates'', JArr []), (''close'', JArr [])])"
  by (simp add: fetch_historical_data_def request_json_def answering_def fresh_def)

text \<open>
  Claim C6, amended. For a reply whose body has an empty list of dates,
  \<open>fetch_historical_data\<close> returns the body as it is, and it is the main area (line 126)
  that treats it as no data: it builds no frame, asks for no predictions, and shows the
  warning that the data could not be retrieved.
\<close>

theorem empty_dates_treated_as_absent:
  assumes "http_reply w (calls s) (GET_historical_data ticker) = Response code (Some body)"
    and "\<not> (400 \<le> code \<and> code < 600)"
    and "py_get body ''dates'' = Inr (JArr [])"
    and "session s ''selected_ticker'' = Some ticker" and "truthy ticker"
  shows "fetch_historical_data w ticker s
           = (Inr body, s\<lparr>calls := calls s @ [GET_historical_data ticker]\<rparr>)
         \<and> main_area w s
             = (Inr (), s\<lparr>calls := calls s @ [GET_historical_data ticker],
                          ui := ui s @ [Warning
                            ''Could not retrieve data, please make sure ticker has valid historical data'']\<rparr>)"
proof -
  have f: "fetch_historical_data w ticker s
             = (Inr body, s\<lparr>calls := calls s @ [GET_historical_data ticker]\<rparr>)"
    using request_json_answer [OF assms(1,2)] by (simp add: fetch_historical_data_def)
  have g: "and_get body ''dates'' = Inr False"
    using assms(3) by (simp add: and_get_def)
  show ?thesis
    using f g assms(4,5) by (simp add: main_area_def show_ui_def)
qed

text \<open>A backend that answers with no dates, while \<^verbatim>\<open>AAPL\<close> is selected.\<close>

theorem empty_dates_treated_as_absent_witness:
  "http_reply (answering (JObj [(''dates'', JArr []), (''close'', JArr [])]))
       (calls (with_selection (JStr ''AAPL''))) (GET_historical_data (JStr ''AAPL''))
     = Response 200 (Some (JObj [(''dates'', JArr []), (''close'', JArr [])]))
   \<and> py_get (JObj [(''dates'', JArr []), (''close'', JArr [])]) ''dates'' = Inr (JArr [])
   \<and> session (with_selection (JStr ''AAPL'')) ''selected_ticker'' = Some (JStr ''AAPL'')
   \<and> truthy (JStr ''AAPL'')
   \<and> main_area (answering (JObj [(''dates'', JArr []), (''close'', JArr [])]))
         (with_selection (JStr ''AAPL''))
       = (Inr (), (with_selection (JStr ''AAPL''))
            \<lparr>calls := [GET_historical_data (JStr ''AAPL'')],
             ui := [Warning
               ''Could not retrieve data, please make sure ticker has valid historical data'']\<rparr>)"
proof -
  let ?body = "JObj [(''dates'', JArr []), (''close'', JArr [])]"
  let ?s = "with_selection (JStr ''AAPL'')"
  have a: "http_reply (answering ?body) (calls ?s) (GET_historical_data (JStr ''AAPL''))
             = Response 200 (Some ?body)"
    by (simp add: answering_def)
  have b: "\<not> (400 \<le> (200::nat) \<and> (200::nat) < 600)" by simp
  have c: "py_get ?body ''dates'' = Inr (JArr [])" by simp
  have d: "session ?s ''selected_ticker'' = Some (JStr ''AAPL'')"
    by (simp add: with_selection_def)
  have e: "truthy (JStr ''AAPL'')" by simp
  have f: "calls ?s = []" and g: "ui ?s = []" by (simp_all add: with_selection_def)
  show ?thesis
    using empty_dates_treated_as_absent [OF a b c d e] a c d e f g by simp
qed

section \<open>The sidebar\<close>

lemma add_new_ticker_session: "session (snd (add_new_ticker w t s)) = session s"
  using request_json_session [of w "POST_add t" s]
  by (auto simp: add_new_ticker_def show_ui_def split: prod.splits sum.splits bool.splits)

lemma add_ticker_form_session:
  assumes "add_ticker_form w u s = (Inr (), s')"
  shows "session s' = session s"
proof -
  let ?s1 = "show_ui (Button ''Add Ticker'')
                 (show_ui (Text_input ''Enter New Ticker'') (show_ui (Header ''Add Ticker'') s))"
  have s1: "session ?s1 = session s" by (simp add: show_ui_def)
  show ?thesis
  proof (cases "add_button u \<and> new_ticker u \<noteq> []")
    case False
    with assms s1 show ?thesis by (auto simp: add_ticker_form_def Let_def)
  next
    case True
    with assms have "s' = snd (add_new_ticker w (new_ticker u) ?s1)"
      by (auto simp: add_ticker_form_def Let_def split: prod.splits sum.splits if_splits)
    then show ?thesis using add_new_ticker_session [of w "new_ticker u" ?s1] s1 by simp
  qed
qed

lemma select_ticker_selection:
  assumes "select_ticker w u s = (Inr (), s')"
  shows "\<exists>tickers sel. fst (fetch_tickers w s) = Inr tickers
           \<and> session s' ''all_tickers'' = Some tickers
           \<and> session s' ''selected_ticker'' = Some sel
           \<and> (\<not> truthy tickers \<longrightarrow> sel = JNull)
           \<and> (\<forall>xs. tickers = JArr xs \<and> xs \<noteq> [] \<longrightarrow> sel \<in> set xs)"
  using assms
  by (auto simp: select_ticker_def selectbox_def set_session_def show_ui_def Let_def
           split: prod.splits sum.splits if_splits)

text \<open>
  Claim C9. After a sidebar that ran to its end, the session holds the ticker list
  fetched in this run and a selection made from it: the selection is \<^verbatim>\<open>None\<close> when the
  list is empty and an element of the list otherwise, so for a list of ticker strings it
  is \<^verbatim>\<open>None\<close> exactly when the list is empty. What was selected before the run plays no
  part: a ticker that is not in the fetched list is not the selection. (A sidebar that
  \<^verbatim>\<open>st.rerun()\<close> stops inside the form is followed at once by a new run, whose sidebar
  fetches and selects again.)
\<close>

theorem selection_after_sidebar:
  assumes "sidebar w u s = (Inr (), s')"
  shows "\<exists>tickers sel. fst (fetch_tickers w (show_ui (Header ''Ticker Options'') s)) = Inr tickers
           \<and> session s' ''all_tickers'' = Some tickers
           \<and> session s' ''selected_ticker'' = Some sel
           \<and> (\<not> truthy tickers \<longrightarrow> sel = JNull)
           \<and> (\<forall>xs. tickers = JArr xs \<and> xs \<noteq> [] \<longrightarrow> sel \<in> set xs)
           \<and> (\<forall>xs. tickers = JArr xs \<and> list_all is_JStr xs \<longrightarrow> (sel = JNull \<longleftrightarrow> xs = []))
           \<and> (\<forall>xs old. tickers = JArr xs \<and> old \<notin> set xs \<and> old \<noteq> JNull \<longrightarrow> sel \<noteq> old)"
proof -
  from assms obtain s1 where
    chosen: "select_ticker w u (show_ui (Header ''Ticker Options'') s) = (Inr (), s1)"
    and form: "add_ticker_form w u s1 = (Inr (), s')"
    by (auto simp: sidebar_def split: prod.splits sum.splits)
  from select_ticker_selection [OF chosen] obtain tickers sel where
    t: "fst (fetch_tickers w (show_ui (Header ''Ticker Options'') s)) = Inr tickers"
    and a: "session s1 ''all_tickers'' = Some tickers"
    and b: "session s1 ''selected_ticker'' = Some sel"
    and c: "\<not> truthy tickers \<longrightarrow> sel = JNull"
    and d: "\<forall>xs. tickers = JArr xs \<and> xs \<noteq> [] \<longrightarrow> sel \<in> set xs"
    by blast
  have same: "session s' = session s1" by (rule add_ticker_form_session [OF form])
  have e: "\<forall>xs. tickers = JArr xs \<and> list_all is_JStr xs \<longrightarrow> (sel = JNull \<longleftrightarrow> xs = [])"
  proof (intro allI impI)
    fix xs assume h: "tickers = JArr xs \<and> list_all is_JStr xs"
    show "sel = JNull \<longleftrightarrow> xs = []"
    proof
      assume n: "sel = JNull"
      show "xs = []"
      proof (rule ccontr)
        assume "xs \<noteq> []"
        with d h have "sel \<in> set xs" by blast
        with h have "is_JStr sel" by (simp add: list_all_iff)
        with n show False by simp
      qed
    next
      assume "xs = []"
      with c h show "sel = JNull" by simp
    qed
  qed
  have f: "\<forall>xs old. tickers = JArr xs \<and> old \<notin> set xs \<and> old \<noteq> JNull \<longrightarrow> sel \<noteq> old"
  proof (intro allI impI)
    fix xs old assume h: "tickers = JArr xs \<and> old \<notin> set xs \<and> old \<noteq> JNull"
    show "sel \<noteq> old"
    proof (cases "xs = []")
      case True
      with c h show ?thesis by auto
    next
      case False
      with d h show ?thesis by blast
    qed
  qed
  show ?thesis using t a b c d e f same by auto
qed

text \<open>A session in which \<^verbatim>\<open>TSLA\<close> was selected, and a backend that no longer lists it.\<close>

theorem selection_after_sidebar_witness:
  "fst (sidebar scenario nobody (with_selection (JStr ''TSLA''))) = Inr ()
   \<and> session (with_selection (JStr ''TSLA'')) ''selected_ticker'' = Some (JStr ''TSLA'')
   \<and> session (snd (sidebar scenario nobody (with_selection (JStr ''TSLA'')))) ''all_tickers''
       = Some (JArr [JStr ''AAPL'', JStr ''MSFT''])
   \<and> session (snd (sidebar scenario nobody (with_selection (JStr ''TSLA'')))) ''selected_ticker''
       = Some (JStr ''AAPL'')"
proof -
  let ?s = "with_selection (JStr ''TSLA'')"
  have fin: "fst (sidebar scenario nobody ?s) = Inr ()"
    by (simp add: world_defs call_defs script_defs)
  then have run: "sidebar scenario nobody ?s = (Inr (), snd (sidebar scenario nobody ?s))"
    by (simp add: prod_eq_iff)
  have old: "session ?s ''selected_ticker'' = Some (JStr ''TSLA'')"
    by (simp add: with_selection_def)
  have t: "fst (fetch_tickers scenario (show_ui (Header ''Ticker Options'') ?s))
             = Inr (JArr [JStr ''AAPL'', JStr ''MSFT''])"
    by (simp add: world_defs call_defs)
  from selection_after_sidebar [OF run] t
  obtain sel where
    a: "session (snd (sidebar scenario nobody ?s)) ''all_tickers''
          = Some (JArr [JStr ''AAPL'', JStr ''MSFT''])"
    and b: "session (snd (sidebar scenario nobody ?s)) ''selected_ticker'' = Some sel"
    by auto
  have "session (snd (sidebar scenario nobody ?s)) ''selected_ticker'' = Some (JStr ''AAPL'')"
    by (simp add: world_defs call_defs script_defs)
  then show ?thesis using fin old a by simp
qed

text \<open>
  Claim C10. The button is pressed, the text is not empty, the ticker is valid and the
  backend answers \<^verbatim>\<open>POST /add\<close> with a status that is no error and a body that is false
  (\<^verbatim>\<open>null\<close>, an empty dictionary, ...). Then the form ends normally: the call to \<^verbatim>\<open>/add\<close> is
  the only call it makes, so the tickers are not fetched again, no success message is
  shown, and the run is not restarted.
\<close>

theorem falsy_add_response_skips_success:
  assumes "add_button u" and "new_ticker u \<noteq> []"
    and "is_valid_ticker w (new_ticker u) = Inr True"
    and "http_reply w (calls s) (POST_add (new_ticker u)) = Response code (Some body)"
    and "\<not> (400 \<le> code \<and> code < 600)"
    and "\<not> truthy body"
  shows "add_ticker_form w u s
           = (Inr (), s\<lparr>calls := calls s @ [POST_add (new_ticker u)],
                        ui := ui s @ [Header ''Add Ticker'', Text_input ''Enter New Ticker'',
                                      Button ''Add Ticker'']\<rparr>)"
proof -
  let ?s1 = "show_ui (Button ''Add Ticker'')
                 (show_ui (Text_input ''Enter New Ticker'') (show_ui (Header ''Add Ticker'') s))"
  have c: "calls ?s1 = calls s" by (simp add: show_ui_def)
  have "request_json w (POST_add (new_ticker u)) ?s1
          = (Inr body, ?s1\<lparr>calls := calls ?s1 @ [POST_add (new_ticker u)]\<rparr>)"
    using assms(4,5) c by (intro request_json_answer) simp_all
  then have "add_new_ticker w (new_ticker u) ?s1
          = (Inr body, ?s1\<lparr>calls := calls ?s1 @ [POST_add (new_ticker u)]\<rparr>)"
    using assms(3) by (simp add: add_new_ticker_def)
  then show ?thesis
    using assms(1,2,6) by (simp add: add_ticker_form_def Let_def show_ui_def)
qed

text \<open>The backend answers \<^verbatim>\<open>null\<close> to the added ticker \<^verbatim>\<open>NVDA\<close>.\<close>

theorem falsy_add_response_skips_success_witness:
  "add_button adding_nvda \<and> new_ticker adding_nvda \<noteq> []
   \<and> is_valid_ticker (answering JNull) (new_ticker adding_nvda) = Inr True
   \<and> http_reply (answering JNull) (calls fresh) (POST_add (new_ticker adding_nvda))
       = Response 200 (Some JNull)
   \<and> \<not> truthy JNull
   \<and> add_ticker_form (answering JNull) adding_nvda fresh
       = (Inr (), fresh\<lparr>calls := [POST_add ''NVDA''],
                         ui := [Header ''Add Ticker'', Text_input ''Enter New Ticker'',
                                Button ''Add Ticker'']\<rparr>)"
proof -
  have a: "add_button adding_nvda" and b: "new_ticker adding_nvda \<noteq> []"
    by (simp_all add: adding_nvda_def)
  have c: "is_valid_ticker (answering JNull) (new_ticker adding_nvda) = Inr True"
    by (simp add: is_valid_ticker_def answering_def scenario_def adding_nvda_def)
  have d: "http_reply (answering JNull) (calls fresh) (POST_add (new_ticker adding_nvda))
             = Response 200 (Some JNull)"
    by (simp add: answering_def)
  have e: "\<not> (400 \<le> (200::nat) \<and> (200::nat) < 600)" by simp
  have f: "\<not> truthy JNull" by simp
  have g: "new_ticker adding_nvda = ''NVDA''" by (simp add: adding_nvda_def)
  show ?thesis
    using falsy_add_response_skips_success [OF a b c d e f] a b c d g by (simp add: fresh_def)
qed

section \<open>A whole run\<close>

text \<open>
  Claim C8. The backend lists \<^verbatim>\<open>AAPL\<close> and \<^verbatim>\<open>MSFT\<close>, the user selects \<^verbatim>\<open>AAPL\<close>, whose
  historical dates are 2024-01-01 and 2024-01-02 with the closes 100 and 102, and the
  predictions are 103 to 109. The run ends normally and the last thing it shows is a
  chart of nine points, dated 2024-01-01 to 2024-01-09 day by day; the last point is
  2024-01-09 with the value 109.
\<close>

theorem scenario_chart:
  "fst (script scenario nobody fresh) = Inr ()
   \<and> session (snd (script scenario nobody fresh)) ''selected_ticker'' = Some (JStr ''AAPL'')
   \<and> (case last (ui (snd (script scenario nobody fresh))) of
         Plotly_chart fig \<Rightarrow>
           length (data fig) = 9
           \<and> Some (fst (last (data fig))) = iso_date ''2024-01-09''
           \<and> snd (last (data fig)) = JNum 109
           \<and> map Some (Date (data fig))
               = map iso_date [''2024-01-01'', ''2024-01-02'', ''2024-01-03'', ''2024-01-04'',
                   ''2024-01-05'', ''2024-01-06'', ''2024-01-07'', ''2024-01-08'', ''2024-01-09'']
           \<and> Close (data fig) = map JNum [100, 102, 103, 104, 105, 106, 107, 108, 109]
       | _ \<Rightarrow> False)"
  by (simp add: world_defs call_defs script_defs date_defs upt_rec)

section \<open>No exception from a well-behaved world\<close>
























end
